theory Spec2Isabelle
  imports Main
begin

section \<open>Syntax tree nodes\<close>

text \<open>
  Classes of the syntax tree that the verified functions read. Only the fields that
  those functions touch are kept. A field of type \<open>T | undefined\<close> is a \<open>T option\<close>.
\<close>

datatype Unparsable = Unparsable nat

datatype TokenType = NAME | SET_OPEN | SET_CLOSE | CONVERT | SELECT | OTHER_TOKEN

datatype Token = Token (token_text: string) (tokenType: TokenType)

text \<open>An alias of a bind; \<open>getName\<close> is what \<^verbatim>\<open>alias.getName()\<close> returns.\<close>

datatype Alias = Alias (getName: "string option") (getLanguage: "string option")

text \<open>
  Expressions. \<open>Name\<close>, \<open>SetLiteral\<close> and \<open>Select\<close> are the classes the source tests for or
  defines; \<open>OtherExpression\<close> stands for every other expression class, told apart by a number.
  A cell of a row holds an expression, a bind or an unparsable fragment (the field is called
  \<^verbatim>\<open>expression\<close> in Select and \<^verbatim>\<open>value\<close> in analyzeRow). A bind has its aliases and an
  optional default value.
\<close>

datatype Expression =
    Name (name: Token)
  | SetLiteral (open_token: Token) (set_values: "Expression list") (close_token: "Token option")
  | Select (table: Expression) (select: Token) (row: Row) (query: "Expression + Unparsable")
  | OtherExpression nat
and Row = Row (cells: "Cell list")
and Cell = Cell (cell_value: CellValue)
and CellValue = IsExpression Expression | IsBind Bind | IsUnparsable Unparsable
and Bind = Bind (aliases: "Alias list") (bind_value: "Expression option")

text \<open>
  Types. A table type has its columns; \<open>'c\<close> is the type of an entry of the array
  \<^verbatim>\<open>columns\<close>: \<open>ColumnType\<close> as TypeScript declares it, and \<open>ColumnType option\<close> where
  the array can hold \<^verbatim>\<open>undefined\<close> at run time (Select.getType builds such an array and
  casts it). The class ColumnType is not in the sources: the datatype holds the identity of
  the object, the names of the column's bind, and what \<^verbatim>\<open>getValueType\<close> and
  \<^verbatim>\<open>hasDefault\<close> return.
\<close>

datatype 'c TableType = TableType (columns: "'c list")

datatype Type =
    BooleanType
  | UnknownType Expression
  | TableT "ColumnType option TableType"
  | OtherType nat
and ColumnType =
    ColumnType (column_id: nat) (column_names: "string list") (getValueType: Type) (hasDefault: bool)

text \<open>
  The context of an analysis. \<open>project_contains\<close> is \<^verbatim>\<open>context.project.contains(node)\<close>
  on a bind; \<open>context_get\<close> is \<^verbatim>\<open>context.get(node)\<close> on the address of a node, giving
  the root that knows the node, if any, of which only the binding scope is kept.
  A scope node has its class and its parent.
\<close>

datatype NodeClass =
  BlockClass | StructureDefinitionClass | FunctionDefinitionClass | ProgramClass | OtherClass

datatype ScopeNode = ScopeNode (node_class: NodeClass) (parent: "ScopeNode option")

datatype Root = Root (getBindingScope: "ScopeNode option")

type_synonym ref = nat

record Context =
  project_contains :: "Bind \<Rightarrow> bool"
  context_get :: "ref \<Rightarrow> Root option"

section \<open>Steps and values\<close>

datatype Step = Start Expression | Finish Expression | OtherStep nat

datatype ExceptionType = NOT_IMPLEMENTED | EXPECTED_VALUE

datatype Value =
    SetValue Expression "Value list"
  | TableValue Expression "Value list"
  | ExceptionValue Expression ExceptionType
  | OtherValue nat

text \<open>The evaluator, reduced to its stack of values, the top first.\<close>

record Evaluator =
  stack :: "Value list"

text \<open>
  Modelled from the spec: \<^verbatim>\<open>Evaluator.popValue\<close> is not in the sources. It takes the top
  of the value stack; on an empty stack it gives an exception value ("value expected but
  absent") and leaves the stack as it is.
\<close>

definition popValue :: "Expression \<Rightarrow> Evaluator \<Rightarrow> Value \<times> Evaluator" where
  "popValue requestor evaluator =
     (case stack evaluator of
        [] \<Rightarrow> (ExceptionValue requestor EXPECTED_VALUE, evaluator)
      | v # vs \<Rightarrow> (v, evaluator\<lparr>stack := vs\<rparr>))"

section \<open>Compiling and evaluating Select and SetLiteral\<close>

text \<open>
  \<open>compile\<close> dispatches on the class of the expression. The classes that are not in the
  sources compile by the parameter \<open>other\<close>. SetLiteral.compile folds over its values with
  \<^verbatim>\<open>reduce\<close>, appending the steps of each one; Select.compile takes the steps of the table
  only (it is written against an older interface, without the context argument, which it
  would not read).
\<close>

fun compile ::
  "(Context \<Rightarrow> Expression \<Rightarrow> Step list) \<Rightarrow> Context \<Rightarrow> Expression \<Rightarrow> Step list" where
  "compile other context (SetLiteral opn vals cls) =
     [Start (SetLiteral opn vals cls)] @
     foldl (\<lambda>steps item. steps @ compile other context item) [] vals @
     [Finish (SetLiteral opn vals cls)]"
| "compile other context (Select tbl sel rw qry) =
     [Start (Select tbl sel rw qry)] @
     compile other context tbl @
     [Finish (Select tbl sel rw qry)]"
| "compile other context (Name n) = other context (Name n)"
| "compile other context (OtherExpression k) = other context (OtherExpression k)"

text \<open>
  The loop of SetLiteral.evaluate: \<open>n\<close> iterations remain, each one pops a value and puts
  it at the front of \<open>vals\<close> (\<^verbatim>\<open>unshift\<close>).
\<close>

fun popValues :: "nat \<Rightarrow> Expression \<Rightarrow> Evaluator \<Rightarrow> Value list \<Rightarrow> Value list \<times> Evaluator" where
  "popValues 0 requestor evaluator vals = (vals, evaluator)"
| "popValues (Suc n) requestor evaluator vals =
     (case popValue requestor evaluator of
        (v, evaluator') \<Rightarrow> popValues n requestor evaluator' (v # vals))"

text \<open>
  \<open>evaluate\<close> returns the value and the evaluator after it. A value object is always
  truthy, so \<^verbatim>\<open>if (prior)\<close> tests that a prior value was given. Select.evaluate takes
  no prior value and ignores the evaluator.
\<close>

fun evaluate ::
  "(Expression \<Rightarrow> Evaluator \<Rightarrow> Value option \<Rightarrow> Value \<times> Evaluator) \<Rightarrow>
   Expression \<Rightarrow> Evaluator \<Rightarrow> Value option \<Rightarrow> Value \<times> Evaluator" where
  "evaluate other (SetLiteral opn vals cls) evaluator prior =
     (case prior of
        Some p \<Rightarrow> (p, evaluator)
      | None \<Rightarrow>
          (case popValues (length vals) (SetLiteral opn vals cls) evaluator [] of
             (popped, evaluator') \<Rightarrow> (SetValue (SetLiteral opn vals cls) popped, evaluator')))"
| "evaluate other (Select tbl sel rw qry) evaluator prior =
     (ExceptionValue (Select tbl sel rw qry) NOT_IMPLEMENTED, evaluator)"
| "evaluate other (Name n) evaluator prior = other (Name n) evaluator prior"
| "evaluate other (OtherExpression k) evaluator prior = other (OtherExpression k) evaluator prior"

text \<open>Whether a value is an exception, and whether it is a table.\<close>

fun isException :: "Value \<Rightarrow> bool" where
  "isException (ExceptionValue _ _) = True"
| "isException _ = False"

fun isTable :: "Value \<Rightarrow> bool" where
  "isTable (TableValue _ _) = True"
| "isTable _ = False"

section \<open>Select.getType\<close>

text \<open>
  \<^verbatim>\<open>Array.prototype.find\<close>: the first entry that satisfies the test, and \<^verbatim>\<open>undefined\<close>
  when there is none. On an array whose entries can be \<^verbatim>\<open>undefined\<close> the two results
  \<open>None\<close> coincide, as they do in JavaScript.
\<close>

fun js_find :: "('a option \<Rightarrow> bool) \<Rightarrow> 'a option list \<Rightarrow> 'a option" where
  "js_find test [] = None"
| "js_find test (x # xs) = (if test x then x else js_find test xs)"

text \<open>Truthiness of \<^verbatim>\<open>ColumnType | undefined\<close>: an object is truthy, \<^verbatim>\<open>undefined\<close> is not.\<close>

definition truthy :: "'a option \<Rightarrow> bool" where
  "truthy x \<longleftrightarrow> x \<noteq> None"

text \<open>
  The column that a cell of the select row names: the cell must hold a \<open>Name\<close>, whose text
  is looked up in the table type. \<^verbatim>\<open>getColumnNamed\<close> belongs to the class TableType, which
  is not in the sources, and is a parameter.
\<close>

fun selectedColumn ::
  "(ColumnType option TableType \<Rightarrow> string \<Rightarrow> ColumnType option) \<Rightarrow>
   ColumnType option TableType \<Rightarrow> Cell \<Rightarrow> ColumnType option" where
  "selectedColumn getColumnNamed tableType (Cell (IsExpression (Name n))) =
     (let column = getColumnNamed tableType (token_text n) in
      (if column = None then None else column))"
| "selectedColumn getColumnNamed tableType (Cell _) =
     (let column = None in (if column = None then None else column))"

text \<open>
  Select.getType. \<open>getTypeOf\<close> is \<^verbatim>\<open>getType\<close> of the other expression classes, here of
  the table. The result of the cast \<^verbatim>\<open>columnTypes as ColumnType[]\<close> is the array itself.
\<close>

fun getType ::
  "(Context \<Rightarrow> Expression \<Rightarrow> Type) \<Rightarrow>
   (ColumnType option TableType \<Rightarrow> string \<Rightarrow> ColumnType option) \<Rightarrow>
   Context \<Rightarrow> Expression \<Rightarrow> Type" where
  "getType getTypeOf getColumnNamed context (Select tbl sel rw qry) =
     (case getTypeOf context tbl of
        TableT tableType \<Rightarrow>
          (let columnTypes = map (selectedColumn getColumnNamed tableType) (cells rw) in
           if truthy (js_find (\<lambda>t. t = None) columnTypes)
           then UnknownType (Select tbl sel rw qry)
           else TableT (TableType columnTypes))
      | _ \<Rightarrow> UnknownType (Select tbl sel rw qry))"
| "getType getTypeOf getColumnNamed context e = getTypeOf context e"

section \<open>requiredBindAfterOptional\<close>

datatype RequiredAfterOptional = RequiredAfterOptional Bind

text \<open>\<^verbatim>\<open>inputs.filter(i => i instanceof Bind)\<close> on a list of \<^verbatim>\<open>Bind | Unparsable\<close>.\<close>

fun filterBinds :: "(Bind + Unparsable) list \<Rightarrow> Bind list" where
  "filterBinds [] = []"
| "filterBinds (Inl b # inputs) = b # filterBinds inputs"
| "filterBinds (Inr u # inputs) = filterBinds inputs"

text \<open>
  The body of the \<^verbatim>\<open>forEach\<close>: the state is the pair of the two local variables
  \<^verbatim>\<open>foundOptional\<close> and \<^verbatim>\<open>requiredAfterOptional\<close>.
\<close>

fun requiredStep :: "bool \<times> Bind option \<Rightarrow> Bind \<Rightarrow> bool \<times> Bind option" where
  "requiredStep (foundOptional, requiredAfterOptional) bind =
     (if bind_value bind \<noteq> None then (True, requiredAfterOptional)
      else if bind_value bind = None \<and> foundOptional \<and> requiredAfterOptional = None
        then (foundOptional, Some bind)
      else (foundOptional, requiredAfterOptional))"

definition requiredBindAfterOptional :: "(Bind + Unparsable) list \<Rightarrow> RequiredAfterOptional option" where
  "requiredBindAfterOptional inputs =
     (let binds = filterBinds inputs in
      case foldl requiredStep (False, None) binds of
        (foundOptional, requiredAfterOptional) \<Rightarrow>
          (case requiredAfterOptional of
             Some bind \<Rightarrow>
               if length inputs = length binds then Some (RequiredAfterOptional bind) else None
           | None \<Rightarrow> None))"

text \<open>
  The words of the claim. The bind at position \<open>j\<close> is required after an optional one when
  it has no default value and a bind before it has one (\<open>f\<close> says that one was seen before
  the list started). \<open>firstRequired\<close> is the first such bind.
\<close>

definition requiredAfter :: "bool \<Rightarrow> Bind list \<Rightarrow> nat \<Rightarrow> bool" where
  "requiredAfter f binds j \<longleftrightarrow>
     bind_value (binds ! j) = None \<and> (f \<or> (\<exists>i<j. bind_value (binds ! i) \<noteq> None))"

fun firstRequired :: "bool \<Rightarrow> Bind list \<Rightarrow> Bind option" where
  "firstRequired f [] = None"
| "firstRequired f (b # bs) =
     (if bind_value b \<noteq> None then firstRequired True bs
      else if f then Some b else firstRequired f bs)"

section \<open>analyzeRow\<close>

datatype Conflict =
    UnknownColumn "ColumnType TableType" Cell
  | IncompatibleCellType "ColumnType TableType" Cell Type Type
  | MissingCell Row "ColumnType TableType" ColumnType
  | InvalidRow Row

text \<open>
  Whether a cell is a named cell (its value is a Bind) and whether it is an unnamed
  expression.
\<close>

fun isBindCell :: "Cell \<Rightarrow> bool" where
  "isBindCell (Cell (IsBind b)) = True"
| "isBindCell (Cell _) = False"

fun isExpressionCell :: "Cell \<Rightarrow> bool" where
  "isExpressionCell (Cell (IsExpression e)) = True"
| "isExpressionCell (Cell _) = False"

text \<open>
  Modelled from the spec: the class Row is not in the sources. \<^verbatim>\<open>row.allBinds()\<close> holds
  when every cell of the row is a named cell.
\<close>

definition allBinds :: "Row \<Rightarrow> bool" where
  "allBinds rw \<longleftrightarrow> list_all isBindCell (cells rw)"

text \<open>
  Modelled from the spec: the class Row is not in the sources. \<^verbatim>\<open>row.allExpressions()\<close>
  holds when every cell of the row is an unnamed expression.
\<close>

definition allExpressions :: "Row \<Rightarrow> bool" where
  "allExpressions rw \<longleftrightarrow> list_all isExpressionCell (cells rw)"

text \<open>
  Modelled from the spec: the class Bind is not in the sources. \<^verbatim>\<open>bind.getNames()\<close> gives
  the names of the aliases that have one, in their order.
\<close>

definition getNames :: "Bind \<Rightarrow> string list" where
  "getNames bind = List.map_filter getName (aliases bind)"

text \<open>
  \<^verbatim>\<open>getNames()[0]\<close>: reading the first entry of a JavaScript array gives \<^verbatim>\<open>undefined\<close>
  when the array is empty.
\<close>

definition firstName :: "Bind \<Rightarrow> string option" where
  "firstName bind = (case getNames bind of [] \<Rightarrow> None | n # _ \<Rightarrow> Some n)"

text \<open>
  The parameters of the analysis, which belong to classes that are not in the sources:
  \<open>getColumnNamed\<close> is \<^verbatim>\<open>tableType.getColumnNamed\<close>, \<open>accepts context expected given\<close> is
  \<^verbatim>\<open>expected.accepts(given, context)\<close>, and \<open>cellType context cell\<close> is
  \<^verbatim>\<open>cell.getType(context)\<close>.
\<close>

record RowAnalysis =
  getColumnNamed :: "ColumnType TableType \<Rightarrow> string option \<Rightarrow> ColumnType option"
  accepts :: "Context \<Rightarrow> Type \<Rightarrow> Type \<Rightarrow> bool"
  cellType :: "Context \<Rightarrow> Cell \<Rightarrow> Type"

text \<open>
  The first loop of the named branch, over the cells, with the state
  \<open>(conflicts, matchedColumns)\<close>.
\<close>

fun namedCell ::
  "RowAnalysis \<Rightarrow> ColumnType TableType \<Rightarrow> Context \<Rightarrow>
   Conflict list \<times> ColumnType list \<Rightarrow> Cell \<Rightarrow> Conflict list \<times> ColumnType list" where
  "namedCell A tableType context (conflicts, matchedColumns) (Cell (IsBind bind)) =
     (case getColumnNamed A tableType (firstName bind) of
        None \<Rightarrow> (conflicts @ [UnknownColumn tableType (Cell (IsBind bind))], matchedColumns)
      | Some column \<Rightarrow>
          (let expected = getValueType column;
               given = cellType A context (Cell (IsBind bind))
           in (if \<not> accepts A context expected given
               then conflicts @ [IncompatibleCellType tableType (Cell (IsBind bind)) expected given]
               else conflicts,
               matchedColumns @ [column])))"
| "namedCell A tableType context (conflicts, matchedColumns) (Cell _) =
     (conflicts, matchedColumns)"

text \<open>The second loop of the named branch, over the columns of the table type.\<close>

fun unmatchedColumn ::
  "Row \<Rightarrow> ColumnType TableType \<Rightarrow> ColumnType list \<Rightarrow> Conflict list \<Rightarrow> ColumnType \<Rightarrow>
   Conflict list" where
  "unmatchedColumn rw tableType matchedColumns conflicts column =
     (if column \<notin> set matchedColumns \<and> \<not> hasDefault column
      then conflicts @ [MissingCell rw tableType column]
      else conflicts)"

text \<open>
  The loop of the positional branch, over the columns; \<open>cs\<close> is the copy of the cells
  from which \<^verbatim>\<open>shift\<close> takes the first one, if there is one.
\<close>

fun positional ::
  "RowAnalysis \<Rightarrow> Row \<Rightarrow> ColumnType TableType \<Rightarrow> Context \<Rightarrow>
   ColumnType list \<Rightarrow> Cell list \<Rightarrow> Conflict list \<Rightarrow> Conflict list" where
  "positional A rw tableType context [] cs conflicts = conflicts"
| "positional A rw tableType context (column # cols) [] conflicts =
     positional A rw tableType context cols [] (conflicts @ [MissingCell rw tableType column])"
| "positional A rw tableType context (column # cols) (cell # cs) conflicts =
     (let expected = getValueType column;
          given = cellType A context cell
      in positional A rw tableType context cols cs
           (if \<not> accepts A context expected given
            then conflicts @ [IncompatibleCellType tableType cell expected given]
            else conflicts))"

definition analyzeRow ::
  "RowAnalysis \<Rightarrow> ColumnType TableType \<Rightarrow> Row \<Rightarrow> Context \<Rightarrow> Conflict list" where
  "analyzeRow A tableType rw context =
     (if allBinds rw then
        (case foldl (namedCell A tableType context) ([], []) (cells rw) of
           (conflicts, matchedColumns) \<Rightarrow>
             foldl (unmatchedColumn rw tableType matchedColumns) conflicts (columns tableType))
      else if allExpressions rw then
        positional A rw tableType context (columns tableType) (cells rw) []
      else [InvalidRow rw])"

text \<open>
  The words of the claim. A row mixes named and unnamed cells when it has a cell of each
  sort. In a named row a column receives a value when the first name of some bind cell is
  looked up to it; in a positional row the column at position \<open>i\<close> receives the cell at
  position \<open>i\<close>.
\<close>

definition mixedRow :: "Row \<Rightarrow> bool" where
  "mixedRow rw \<longleftrightarrow> list_ex isBindCell (cells rw) \<and> list_ex isExpressionCell (cells rw)"

fun namesColumn :: "RowAnalysis \<Rightarrow> ColumnType TableType \<Rightarrow> ColumnType \<Rightarrow> Cell \<Rightarrow> bool" where
  "namesColumn A tableType column (Cell (IsBind bind)) =
     (getColumnNamed A tableType (firstName bind) = Some column)"
| "namesColumn A tableType column (Cell _) = False"

definition incompatible :: "RowAnalysis \<Rightarrow> Context \<Rightarrow> ColumnType \<Rightarrow> Cell \<Rightarrow> bool" where
  "incompatible A context column cell \<longleftrightarrow>
     \<not> accepts A context (getValueType column) (cellType A context cell)"

section \<open>getCaseCollision\<close>

text \<open>
  What \<^verbatim>\<open>getDefinitionOfName\<close> can return: a bind, or a definition of another class
  (with its names). The node that is checked is a Name or an Alias.
\<close>

datatype Definition = BindDefinition Bind | OtherDefinition "string list"

datatype NameOrAlias = IsName Token | IsAlias Alias

datatype CaseSensitive = CaseSensitive NameOrAlias Alias

text \<open>
  The local variable \<^verbatim>\<open>otherCase\<close>. The two case mappings are the methods
  \<^verbatim>\<open>toLocaleUpperCase\<close> and \<^verbatim>\<open>toLocaleLowerCase\<close> of JavaScript strings, which map every
  cased letter of Unicode and depend on the locale of the host: they are parameters, and
  nothing is assumed about them.
\<close>

definition otherCase :: "(string \<Rightarrow> string) \<Rightarrow> (string \<Rightarrow> string) \<Rightarrow> string \<Rightarrow> string option" where
  "otherCase toLocaleUpperCase toLocaleLowerCase nm =
     (let upper = toLocaleUpperCase nm;
          lower = toLocaleLowerCase nm
      in if upper = lower then None else if nm = upper then Some lower else Some upper)"

text \<open>
  \<open>getDefinitionOfName\<close> is the method of the enclosing node, whose class is not in the
  sources: a parameter. \<^verbatim>\<open>aliases.find\<close> is \<open>find\<close>, with \<open>None\<close> for \<^verbatim>\<open>undefined\<close>.
\<close>

definition getCaseCollision ::
  "(string \<Rightarrow> string) \<Rightarrow> (string \<Rightarrow> string) \<Rightarrow>
   ('e \<Rightarrow> string \<Rightarrow> Context \<Rightarrow> NameOrAlias \<Rightarrow> Definition option) \<Rightarrow>
   string \<Rightarrow> 'e option \<Rightarrow> Context \<Rightarrow> NameOrAlias \<Rightarrow> CaseSensitive option" where
  "getCaseCollision toLocaleUpperCase toLocaleLowerCase getDefinitionOfName nm enclosure context node =
     (case enclosure of
        None \<Rightarrow> None
      | Some encl \<Rightarrow>
          (case otherCase toLocaleUpperCase toLocaleLowerCase nm of
             None \<Rightarrow> None
           | Some other \<Rightarrow>
               (case getDefinitionOfName encl other context node of
                  Some (BindDefinition otherBind) \<Rightarrow>
                    (case find (\<lambda>n. getName n = Some other) (aliases otherBind) of
                       Some alias \<Rightarrow> Some (CaseSensitive node alias)
                     | None \<Rightarrow> None)
                | _ \<Rightarrow> None)))"

text \<open>
  Modelled from the spec: name resolution is not in the sources. A scope is the list of its
  definitions, and resolution is case-sensitive: it gives the first definition that bears
  exactly the name.
\<close>

datatype Scope = Scope (definitions: "Definition list")

fun definitionNames :: "Definition \<Rightarrow> string list" where
  "definitionNames (BindDefinition b) = getNames b"
| "definitionNames (OtherDefinition ns) = ns"

definition getDefinitionOfName :: "Scope \<Rightarrow> string \<Rightarrow> Context \<Rightarrow> NameOrAlias \<Rightarrow> Definition option" where
  "getDefinitionOfName scope nm context node =
     find (\<lambda>d. nm \<in> set (definitionNames d)) (definitions scope)"

text \<open>
  The words of the claim, for a given mapping to lower case: two names differ only by
  letter case when they are different and equal once put in lower case; a scope defines a
  case variant of a name when one of its binds has such a name.
\<close>

definition differsOnlyByCase :: "(string \<Rightarrow> string) \<Rightarrow> string \<Rightarrow> string \<Rightarrow> bool" where
  "differsOnlyByCase toLower a b \<longleftrightarrow> a \<noteq> b \<and> toLower a = toLower b"

fun bindsCaseVariant :: "(string \<Rightarrow> string) \<Rightarrow> string \<Rightarrow> Definition \<Rightarrow> bool" where
  "bindsCaseVariant toLower nm (BindDefinition b) =
     list_ex (differsOnlyByCase toLower nm) (getNames b)"
| "bindsCaseVariant toLower nm (OtherDefinition ns) = False"

definition definesCaseVariant :: "(string \<Rightarrow> string) \<Rightarrow> Scope \<Rightarrow> string \<Rightarrow> bool" where
  "definesCaseVariant toLower scope nm \<longleftrightarrow>
     list_ex (bindsCaseVariant toLower nm) (definitions scope)"

text \<open>
  The case mappings on text made of ASCII letters other than \<open>i\<close> and \<open>I\<close>, on which
  JavaScript gives the same result in every locale: the letters \<open>a\<close> to \<open>z\<close> and \<open>A\<close> to
  \<open>Z\<close> change case, every other byte stays. They stand for the two methods on the
  concrete names below only, which are such text.
\<close>

definition asciiUpperChar :: "char \<Rightarrow> char" where
  "asciiUpperChar c =
     (let n = (of_char c :: nat) in if 97 \<le> n \<and> n \<le> 122 then char_of (n - 32) else c)"

definition asciiLowerChar :: "char \<Rightarrow> char" where
  "asciiLowerChar c =
     (let n = (of_char c :: nat) in if 65 \<le> n \<and> n \<le> 90 then char_of (n + 32) else c)"

definition asciiUpperCase :: "string \<Rightarrow> string" where
  "asciiUpperCase s = map asciiUpperChar s"

definition asciiLowerCase :: "string \<Rightarrow> string" where
  "asciiLowerCase s = map asciiLowerChar s"

section \<open>MissingInput\<close>

text \<open>
  The definition that is evaluated (a function, structure or stream definition), with the
  two names the explanation asks for: \<open>preferredNameString\<close> is
  \<^verbatim>\<open>names.getPreferredNameString(locales.getLocales())\<close>, which can be undefined, and
  \<open>firstNameOf\<close> is \<^verbatim>\<open>names.getFirst()\<close>. The evaluation is an Evaluate, a BinaryEvaluate
  or a UnaryEvaluate; each has the field \<^verbatim>\<open>fun\<close>.
\<close>

datatype DefinitionClass = FunctionDefinition | StructureDefinition | StreamDefinition

datatype Evaluated =
  Evaluated (definition_class: DefinitionClass) (preferredNameString: "string option")
    (firstNameOf: string) (preferredName: string)

datatype Evaluation =
    Evaluate (fun_node: Expression) (given_inputs: "Expression list")
  | BinaryEvaluate (left_operand: Expression) (fun_node: Expression) (right_operand: Expression)
  | UnaryEvaluate (fun_node: Expression) (operand: Expression)

datatype Node = ExpressionNode Expression | BindNode Bind | TokenNode Token

datatype MissingInput =
  MissingInput (func: Evaluated) (evaluation: Evaluation) (last_node: "Token + Expression")
    (input: Bind)

text \<open>
  An explanation is the path of a template of the locale with its arguments:
  a text, a reference to a node, or a reference to a concept by its path.
  \<open>bindPreferredName\<close> is \<^verbatim>\<open>input.getPreferredName(locales.getLocales())\<close>.
\<close>

datatype Argument = TextArgument string | NodeRef Node | ConceptRef string

datatype Explanation = Concretize string "Argument list"

record ConflictingNode =
  node :: Node
  explanation :: "(Bind \<Rightarrow> string) \<Rightarrow> Context \<Rightarrow> Explanation"

record ConflictingNodes =
  primary :: ConflictingNode
  secondary :: ConflictingNode

definition getConflictingNodes :: "MissingInput \<Rightarrow> ConflictingNodes" where
  "getConflictingNodes this =
     \<lparr> primary =
         \<lparr> node = ExpressionNode (fun_node (evaluation this)),
           explanation = (\<lambda>bindPreferredName context.
             Concretize ''node.Evaluate.conflict.MissingInput.primary''
               [TextArgument
                  (case preferredNameString (func this) of
                     Some n \<Rightarrow> n
                   | None \<Rightarrow> firstNameOf (func this)),
                if project_contains context (input this)
                then NodeRef (BindNode (input this))
                else ConceptRef
                  (preferredName (func this) @ ''/'' @ bindPreferredName (input this))]) \<rparr>,
       secondary =
         \<lparr> node = BindNode (input this),
           explanation = (\<lambda>bindPreferredName context.
             Concretize ''node.Evaluate.conflict.MissingInput.secondary''
               [NodeRef (ExpressionNode (fun_node (evaluation this)))]) \<rparr> \<rparr>"

section \<open>ConversionDefinition.computeConflicts\<close>

datatype MisplacedConversion = MisplacedConversion ref

definition instanceofBlock :: "ScopeNode \<Rightarrow> bool" where
  "instanceofBlock n \<longleftrightarrow> node_class n = BlockClass"

text \<open>
  \<open>this\<close> is the address of the conversion definition.
  \<^verbatim>\<open>context.get(this)?.getBindingScope()\<close> is undefined when the context does not know the
  node (a native conversion) or when the node has no binding scope.
\<close>

definition computeConflicts :: "ref \<Rightarrow> Context \<Rightarrow> MisplacedConversion list" where
  "computeConflicts this context =
     (let enclosure =
        (case context_get context this of
           None \<Rightarrow> None
         | Some root \<Rightarrow> getBindingScope root)
      in case enclosure of
           None \<Rightarrow> []
         | Some e \<Rightarrow> if \<not> instanceofBlock e then [MisplacedConversion this] else [])"

text \<open>
  The words of the claim: a binding scope belongs to a structure definition when it is a
  structure definition or the block of one.
\<close>

fun ofStructureDefinition :: "ScopeNode \<Rightarrow> bool" where
  "ofStructureDefinition (ScopeNode c p) =
     (c = StructureDefinitionClass \<or>
      (c = BlockClass \<and>
       (case p of
          Some (ScopeNode c' p') \<Rightarrow> c' = StructureDefinitionClass
        | None \<Rightarrow> False)))"

section \<open>Replacing a child: ConversionDefinition.replace and SetLiteral.clone\<close>

text \<open>
  Nodes are objects with an identity, so this part works on a heap: a list of objects, the
  address of an object being its position. \<^verbatim>\<open>new\<close> puts the object at the end. Two
  fields refer to the same node exactly when they hold the same address.
\<close>

datatype Object =
    TokenObject string TokenType
  | DocsObject "ref option"
  | TranslationsObject
  | TypeObject nat
  | ExpressionObject nat
  | ConversionDefinitionObject (cd_docs: ref) (cd_arrow: ref) (cd_input: ref) (cd_output: ref)
      (cd_expression: ref)
  | SetLiteralObject (sl_open: ref) (sl_values: "ref list") (sl_close: "ref option")

type_synonym heap = "Object list"

definition alloc :: "Object \<Rightarrow> heap \<Rightarrow> ref \<times> heap" where
  "alloc ob h = (length h, h @ [ob])"

fun isDocs :: "Object \<Rightarrow> bool" where
  "isDocs (DocsObject _) = True"
| "isDocs _ = False"

definition instanceofDocs :: "heap \<Rightarrow> ref \<Rightarrow> bool" where
  "instanceofDocs h r \<longleftrightarrow> r < length h \<and> isDocs (h ! r)"

text \<open>The text of the convert token, the arrow U+2192 in UTF-8.\<close>

definition CONVERT_SYMBOL :: string where
  "CONVERT_SYMBOL = [char_of (226 :: nat), char_of (134 :: nat), char_of (146 :: nat)]"

text \<open>
  A replacement is the pair of the original node and of the node that takes its place.
  ConversionDefinition.replace takes the two as optional parameters and SetLiteral.clone
  as one optional object; a call that gives neither copies the node.
\<close>

type_synonym Replacement = "ref \<times> ref"

text \<open>
  Modelled from the spec: \<^verbatim>\<open>replaceChild\<close> belongs to the class Node, which is not in the
  sources. The child that is the original is substituted, any other child is returned as
  it is, the same node and not a copy. The arguments \<^verbatim>\<open>pretty\<close> and \<^verbatim>\<open>field\<close> do not
  change which node is returned (SetLiteral.clone has no \<^verbatim>\<open>pretty\<close> to give).
\<close>

fun replaceChild :: "bool \<Rightarrow> string \<Rightarrow> ref \<Rightarrow> Replacement option \<Rightarrow> ref" where
  "replaceChild pretty field child None = child"
| "replaceChild pretty field child (Some (original, replacement)) =
     (if child = original then replacement else child)"

text \<open>
  Modelled from the spec: \<^verbatim>\<open>replaceChild\<close> on a field that holds a list of nodes, each of
  which is treated as a child.
\<close>

definition replaceChildren :: "bool \<Rightarrow> string \<Rightarrow> ref list \<Rightarrow> Replacement option \<Rightarrow> ref list" where
  "replaceChildren pretty field children replace =
     map (\<lambda>child. replaceChild pretty field child replace) children"

text \<open>
  Modelled from the spec: \<^verbatim>\<open>replaceChild\<close> on a field that can be undefined, which then
  stays undefined.
\<close>

definition replaceOptionalChild ::
  "bool \<Rightarrow> string \<Rightarrow> ref option \<Rightarrow> Replacement option \<Rightarrow> ref option" where
  "replaceOptionalChild pretty field child replace =
     map_option (\<lambda>c. replaceChild pretty field c replace) child"

text \<open>
  The constructor of ConversionDefinition. A \<^verbatim>\<open>docs\<close> that is not a Docs is wrapped in a
  new one, a missing convert token is made. The inputs and outputs are nodes here, never
  strings, so they are stored as they are. \<^verbatim>\<open>computeChildren\<close> only caches the list of
  children.
\<close>

definition newConversionDefinition ::
  "ref \<Rightarrow> ref \<Rightarrow> ref \<Rightarrow> ref \<Rightarrow> ref option \<Rightarrow> heap \<Rightarrow> ref \<times> heap" where
  "newConversionDefinition docs inp outp expr convert h =
     (case (if instanceofDocs h docs then (docs, h) else alloc (DocsObject (Some docs)) h) of
        (d, h1) \<Rightarrow>
          (case (case convert of
                   Some t \<Rightarrow> (t, h1)
                 | None \<Rightarrow> alloc (TokenObject CONVERT_SYMBOL CONVERT) h1) of
             (a, h2) \<Rightarrow> alloc (ConversionDefinitionObject d a inp outp expr) h2))"

text \<open>
  ConversionDefinition.replace on the node at address \<open>this\<close>. The result is the address of
  the new node and the heap after the call; \<open>None\<close> when \<open>this\<close> is not a conversion
  definition.
\<close>

definition ConversionDefinition_replace ::
  "heap \<Rightarrow> ref \<Rightarrow> bool \<Rightarrow> Replacement option \<Rightarrow> (ref \<times> heap) option" where
  "ConversionDefinition_replace h this pretty replace =
     (if this < length h then
        (case h ! this of
           ConversionDefinitionObject docs arrow inp outp expr \<Rightarrow>
             Some (newConversionDefinition
                     (replaceChild pretty ''docs'' docs replace)
                     (replaceChild pretty ''input'' inp replace)
                     (replaceChild pretty ''output'' outp replace)
                     (replaceChild pretty ''expression'' expr replace)
                     (Some (replaceChild pretty ''arrow'' arrow replace))
                     h)
         | _ \<Rightarrow> None)
      else None)"

text \<open>The constructor of SetLiteral stores its three arguments.\<close>

definition newSetLiteral :: "ref \<Rightarrow> ref list \<Rightarrow> ref option \<Rightarrow> heap \<Rightarrow> ref \<times> heap" where
  "newSetLiteral opn vals cls h = alloc (SetLiteralObject opn vals cls) h"

definition SetLiteral_clone :: "heap \<Rightarrow> ref \<Rightarrow> Replacement option \<Rightarrow> (ref \<times> heap) option" where
  "SetLiteral_clone h this replace =
     (if this < length h then
        (case h ! this of
           SetLiteralObject opn vals cls \<Rightarrow>
             Some (newSetLiteral
                     (replaceChild False ''open'' opn replace)
                     (replaceChildren False ''values'' vals replace)
                     (replaceOptionalChild False ''close'' cls replace)
                     h)
         | _ \<Rightarrow> None)
      else None)"

text \<open>The words of the claim: the slot after the substitution of one pair.\<close>

definition substituted :: "ref \<Rightarrow> ref \<Rightarrow> ref \<Rightarrow> ref" where
  "substituted original replacement child = (if child = original then replacement else child)"

section \<open>Looking up a column by name\<close>

text \<open>
  Modelled from the spec: \<^verbatim>\<open>TableType.getColumnNamed\<close> is not in the sources. It gives the
  first column whose bind bears the name, and \<^verbatim>\<open>undefined\<close> when there is none. The
  functions above take the lookup as a parameter; this one is used where they are run.
\<close>

definition columnNamed :: "ColumnType list \<Rightarrow> string \<Rightarrow> ColumnType option" where
  "columnNamed cols nm = find (\<lambda>c. nm \<in> set (column_names c)) cols"

text \<open>The entries of an array of columns that are not \<^verbatim>\<open>undefined\<close>.\<close>

definition definedColumns :: "ColumnType option list \<Rightarrow> ColumnType list" where
  "definedColumns cols = List.map_filter (\<lambda>c. c) cols"

text \<open>
  Modelled from the spec: \<^verbatim>\<open>getColumnNamed\<close> as Select.getType calls it, on a table type
  whose array can hold \<^verbatim>\<open>undefined\<close>: it looks at the columns that are there.
\<close>

definition selectColumnNamed :: "ColumnType option TableType \<Rightarrow> string \<Rightarrow> ColumnType option" where
  "selectColumnNamed tableType nm = columnNamed (definedColumns (columns tableType)) nm"

text \<open>
  Modelled from the spec: \<^verbatim>\<open>getColumnNamed\<close> as analyzeRow calls it, with the first name
  of a bind, which can be \<^verbatim>\<open>undefined\<close>: no column has that name.
\<close>

definition rowColumnNamed :: "ColumnType TableType \<Rightarrow> string option \<Rightarrow> ColumnType option" where
  "rowColumnNamed tableType nm =
     (case nm of None \<Rightarrow> None | Some n \<Rightarrow> columnNamed (columns tableType) n)"

section \<open>Concrete inputs\<close>

text \<open>Inputs on which the theorems below are instantiated and the code is run.\<close>

definition ex_context :: Context where
  "ex_context = \<lparr> project_contains = (\<lambda>b. True), context_get = (\<lambda>r. None) \<rparr>"

definition ex_optional :: Bind where
  "ex_optional = Bind [Alias (Some ''a'') None] (Some (OtherExpression 0))"

definition ex_required :: Bind where
  "ex_required = Bind [Alias (Some ''b'') None] None"

definition ex_required2 :: Bind where
  "ex_required2 = Bind [Alias (Some ''c'') None] None"

definition ex_otherSteps :: "Context \<Rightarrow> Expression \<Rightarrow> Step list" where
  "ex_otherSteps context e = [Start e, Finish e]"

definition ex_otherEvaluate :: "Expression \<Rightarrow> Evaluator \<Rightarrow> Value option \<Rightarrow> Value \<times> Evaluator" where
  "ex_otherEvaluate e evaluator prior = (OtherValue 0, evaluator)"

definition ex_set :: Expression where
  "ex_set = SetLiteral (Token ''{'' SET_OPEN) [OtherExpression 1, OtherExpression 2]
     (Some (Token ''}'' SET_CLOSE))"

definition ex_evaluator :: Evaluator where
  "ex_evaluator = \<lparr> stack = [OtherValue 2, OtherValue 1, OtherValue 7] \<rparr>"

definition ex_column_a :: ColumnType where
  "ex_column_a = ColumnType 1 [''a''] BooleanType False"

definition ex_column_b :: ColumnType where
  "ex_column_b = ColumnType 2 [''b''] BooleanType False"

definition ex_column_c :: ColumnType where
  "ex_column_c = ColumnType 3 [''c''] BooleanType False"

text \<open>A select of the columns \<open>a\<close> and \<open>z\<close> from a table that has the column \<open>a\<close> only.\<close>

definition ex_getTypeOf :: "Context \<Rightarrow> Expression \<Rightarrow> Type" where
  "ex_getTypeOf context e =
     (if e = OtherExpression 5 then TableT (TableType [Some ex_column_a]) else OtherType 0)"

definition ex_select :: Expression where
  "ex_select =
     Select (OtherExpression 5) (Token ''select'' SELECT)
       (Row [Cell (IsExpression (Name (Token ''a'' NAME))),
             Cell (IsExpression (Name (Token ''z'' NAME)))])
       (Inl (OtherExpression 6))"

definition ex_select_a :: Expression where
  "ex_select_a =
     Select (OtherExpression 5) (Token ''select'' SELECT)
       (Row [Cell (IsExpression (Name (Token ''a'' NAME)))])
       (Inl (OtherExpression 6))"

text \<open>
  A table with the columns \<open>a\<close>, \<open>b\<close> and \<open>c\<close>, all boolean and without default, and three
  rows: one with a named cell and an unnamed one, one with a named cell only, one with an
  unnamed cell only. Every cell has the type \<open>OtherType 1\<close>, which a boolean column does
  not accept.
\<close>

definition ex_table :: "ColumnType TableType" where
  "ex_table = TableType [ex_column_a, ex_column_b, ex_column_c]"

definition ex_accepts :: "Context \<Rightarrow> Type \<Rightarrow> Type \<Rightarrow> bool" where
  "ex_accepts context expected given \<longleftrightarrow> expected = given"

definition ex_cellType :: "Context \<Rightarrow> Cell \<Rightarrow> Type" where
  "ex_cellType context cell = OtherType 1"

definition ex_analysis :: RowAnalysis where
  "ex_analysis =
     \<lparr> getColumnNamed = rowColumnNamed, accepts = ex_accepts, cellType = ex_cellType \<rparr>"

definition ex_named_cell :: Cell where
  "ex_named_cell = Cell (IsBind (Bind [Alias (Some ''a'') None] (Some (OtherExpression 3))))"

definition ex_unnamed_cell :: Cell where
  "ex_unnamed_cell = Cell (IsExpression (OtherExpression 4))"

definition ex_mixed_row :: Row where
  "ex_mixed_row = Row [ex_named_cell, ex_unnamed_cell]"

definition ex_named_row :: Row where
  "ex_named_row = Row [ex_named_cell]"

definition ex_positional_row :: Row where
  "ex_positional_row = Row [ex_unnamed_cell]"

text \<open>A scope that binds \<open>hello\<close>, and one that binds \<open>HELLO\<close>.\<close>

definition ex_scope_lower :: Scope where
  "ex_scope_lower = Scope [BindDefinition (Bind [Alias (Some ''hello'') None] None)]"

definition ex_alias_upper :: Alias where
  "ex_alias_upper = Alias (Some ''HELLO'') None"

definition ex_scope_upper :: Scope where
  "ex_scope_upper = Scope [BindDefinition (Bind [ex_alias_upper] None)]"

text \<open>
  Contexts in which the binding scope of the conversion definition at address \<open>0\<close> is the
  block of a program, and the inputs of a function definition.
\<close>

definition ex_program_block :: ScopeNode where
  "ex_program_block = ScopeNode BlockClass (Some (ScopeNode ProgramClass None))"

definition ex_function_scope :: ScopeNode where
  "ex_function_scope = ScopeNode FunctionDefinitionClass (Some ex_program_block)"

definition ex_block_context :: Context where
  "ex_block_context =
     \<lparr> project_contains = (\<lambda>b. True),
       context_get = (\<lambda>r. Some (Root (Some ex_program_block))) \<rparr>"

definition ex_function_context :: Context where
  "ex_function_context =
     \<lparr> project_contains = (\<lambda>b. True),
       context_get = (\<lambda>r. Some (Root (Some ex_function_scope))) \<rparr>"

text \<open>
  A heap with a conversion definition at address \<open>5\<close> and a type at address \<open>6\<close> that is
  to take the place of its input, and a heap with a set literal at address \<open>4\<close> and an
  expression at address \<open>5\<close> that is to take the place of its second value.
\<close>

definition ex_conversion_heap :: heap where
  "ex_conversion_heap =
     [DocsObject None, TokenObject CONVERT_SYMBOL CONVERT, TypeObject 1, TypeObject 2,
      ExpressionObject 1, ConversionDefinitionObject 0 1 2 3 4, TypeObject 3]"

definition ex_set_heap :: heap where
  "ex_set_heap =
     [TokenObject ''{'' SET_OPEN, ExpressionObject 1, ExpressionObject 2,
      TokenObject ''}'' SET_CLOSE, SetLiteralObject 0 [1, 2] (Some 3), ExpressionObject 9]"

section \<open>Properties of requiredBindAfterOptional\<close>

lemma foldl_requiredStep_found:
  "foldl requiredStep (f, Some x) binds = (f \<or> (\<exists>b\<in>set binds. bind_value b \<noteq> None), Some x)"
  by (induction binds arbitrary: f) auto

lemma foldl_requiredStep:
  "foldl requiredStep (f, None) binds =
     (f \<or> (\<exists>b\<in>set binds. bind_value b \<noteq> None), firstRequired f binds)"
  by (induction binds arbitrary: f) (auto simp: foldl_requiredStep_found)

lemma requiredAfter_Cons_0:
  "requiredAfter f (b # bs) 0 \<longleftrightarrow> bind_value b = None \<and> f"
  by (simp add: requiredAfter_def)

lemma requiredAfter_Cons_Suc:
  "requiredAfter f (b # bs) (Suc j) \<longleftrightarrow> requiredAfter (f \<or> bind_value b \<noteq> None) bs j"
  unfolding requiredAfter_def by (auto simp: less_Suc_eq_0_disj)

lemma firstRequired_index:
  "firstRequired f binds = Some b \<longleftrightarrow>
     (\<exists>j<length binds. binds ! j = b \<and> requiredAfter f binds j \<and>
        (\<forall>k<j. \<not> requiredAfter f binds k))"
proof (induction binds arbitrary: f)
  case Nil
  then show ?case by simp
next
  case (Cons a binds)
  let ?P = "\<lambda>f xs j. xs ! j = b \<and> requiredAfter f xs j \<and> (\<forall>k<j. \<not> requiredAfter f xs k)"
  have shift: "(\<exists>j<length (a # binds). ?P f (a # binds) j) \<longleftrightarrow>
        ?P f (a # binds) 0 \<or> (\<not> requiredAfter f (a # binds) 0 \<and>
           (\<exists>j<length binds. ?P (f \<or> bind_value a \<noteq> None) binds j))"
    (is "?L \<longleftrightarrow> ?R")
  proof
    assume ?L
    then obtain j where j: "j < length (a # binds)" "?P f (a # binds) j" by blast
    show ?R
    proof (cases j)
      case 0
      with j show ?thesis by auto
    next
      case (Suc j')
      with j have "\<not> requiredAfter f (a # binds) 0" by auto
      moreover from j Suc have "j' < length binds" by simp
      moreover from j Suc have "?P (f \<or> bind_value a \<noteq> None) binds j'"
        by (auto simp: requiredAfter_Cons_Suc)
      ultimately show ?thesis by blast
    qed
  next
    assume ?R
    then show ?L
    proof
      assume "?P f (a # binds) 0"
      then show ?L by auto
    next
      assume r: "\<not> requiredAfter f (a # binds) 0 \<and>
           (\<exists>j<length binds. ?P (f \<or> bind_value a \<noteq> None) binds j)"
      then obtain j where j: "j < length binds" "?P (f \<or> bind_value a \<noteq> None) binds j"
        by blast
      have "\<forall>k<Suc j. \<not> requiredAfter f (a # binds) k"
      proof (intro allI impI)
        fix k assume "k < Suc j"
        with r j show "\<not> requiredAfter f (a # binds) k"
          by (cases k) (auto simp: requiredAfter_Cons_Suc)
      qed
      with j have "Suc j < length (a # binds) \<and> ?P f (a # binds) (Suc j)"
        by (simp add: requiredAfter_Cons_Suc)
      then show ?L by blast
    qed
  qed
  show ?case
    unfolding shift by (auto simp: Cons.IH requiredAfter_Cons_0)
qed

lemma filterBinds_map_Inl: "filterBinds (map Inl binds) = binds"
  by (induction binds) auto

lemma length_filterBinds_le: "length (filterBinds inputs) \<le> length inputs"
  by (induction inputs rule: filterBinds.induct) auto

lemma length_filterBinds_less:
  "Inr u \<in> set inputs \<Longrightarrow> length (filterBinds inputs) < length inputs"
proof (induction inputs rule: filterBinds.induct)
  case 1
  then show ?case by simp
next
  case (2 b inputs)
  then show ?case by auto
next
  case (3 u' inputs)
  from length_filterBinds_le [of inputs] show ?case by simp
qed

text \<open>
  C10. On a list that holds an unparsable input the result is undefined, whatever the
  binds are. On a list of binds only, the result is the conflict on the bind \<open>b\<close> exactly
  when \<open>b\<close> is the first bind without a default value that comes after a bind with one.
\<close>

theorem requiredBindAfterOptional_spec:
  "((\<exists>u. Inr u \<in> set inputs) \<longrightarrow> requiredBindAfterOptional inputs = None) \<and>
   (inputs = map Inl binds \<longrightarrow>
      (\<forall>b. requiredBindAfterOptional inputs = Some (RequiredAfterOptional b) \<longleftrightarrow>
         (\<exists>j<length binds. binds ! j = b \<and> requiredAfter False binds j \<and>
            (\<forall>k<j. \<not> requiredAfter False binds k))))"
proof (intro conjI impI allI)
  assume "\<exists>u. Inr u \<in> set inputs"
  then obtain u where "Inr u \<in> set inputs" ..
  then have "length (filterBinds inputs) < length inputs"
    by (rule length_filterBinds_less)
  then show "requiredBindAfterOptional inputs = None"
    by (simp add: requiredBindAfterOptional_def Let_def split: prod.splits option.splits)
next
  fix b
  assume "inputs = map Inl binds"
  then show "requiredBindAfterOptional inputs = Some (RequiredAfterOptional b) \<longleftrightarrow>
         (\<exists>j<length binds. binds ! j = b \<and> requiredAfter False binds j \<and>
            (\<forall>k<j. \<not> requiredAfter False binds k))"
    by (simp add: requiredBindAfterOptional_def Let_def filterBinds_map_Inl foldl_requiredStep
          firstRequired_index [symmetric] split: option.splits)
qed

theorem requiredBindAfterOptional_spec_witness:
  "requiredBindAfterOptional [Inl ex_required, Inl ex_optional, Inl ex_required2, Inl ex_required]
     = Some (RequiredAfterOptional ex_required2) \<and>
   requiredBindAfterOptional [Inl ex_optional, Inr (Unparsable 0), Inl ex_required2] = None"
proof -
  let ?binds = "[ex_required, ex_optional, ex_required2, ex_required]"
  have "bind_value (?binds ! Suc 0) \<noteq> None"
    by (simp add: ex_optional_def)
  then have "\<exists>i<Suc (Suc 0). bind_value (?binds ! i) \<noteq> None"
    by blast
  then have "Suc (Suc 0) < length ?binds \<and> ?binds ! Suc (Suc 0) = ex_required2 \<and>
      requiredAfter False ?binds (Suc (Suc 0)) \<and>
      (\<forall>k<Suc (Suc 0). \<not> requiredAfter False ?binds k)"
    by (simp add: requiredAfter_def ex_required_def ex_optional_def ex_required2_def
          less_Suc_eq)
  then have "\<exists>j<length ?binds. ?binds ! j = ex_required2 \<and> requiredAfter False ?binds j \<and>
      (\<forall>k<j. \<not> requiredAfter False ?binds k)"
    by blast
  with requiredBindAfterOptional_spec [of "map Inl ?binds" ?binds]
  have first: "requiredBindAfterOptional (map Inl ?binds) = Some (RequiredAfterOptional ex_required2)"
    by blast
  have "\<exists>u. Inr u \<in> set [Inl ex_optional, Inr (Unparsable 0), Inl ex_required2]"
    by simp
  with requiredBindAfterOptional_spec [of "[Inl ex_optional, Inr (Unparsable 0), Inl ex_required2]" "[]"]
  have second: "requiredBindAfterOptional [Inl ex_optional, Inr (Unparsable 0), Inl ex_required2] = None"
    by blast
  from first second show ?thesis by simp
qed

section \<open>Properties of compile and evaluate\<close>

lemma foldl_append_steps:
  "foldl (\<lambda>steps item. steps @ f item) acc items = acc @ concat (map f items)"
  by (induction items arbitrary: acc) auto

text \<open>
  C2. The plan of a select is the start step of the select, the plan of its table and the
  finish step of the select. The row and the query add no step: whatever they are, the
  steps between the two markers are the plan of the table, and the plan is two steps
  longer than that of the table.
\<close>

theorem Select_compile_table_only:
  "compile other ctx (Select tbl sel rw qry) =
     Start (Select tbl sel rw qry) # compile other ctx tbl @ [Finish (Select tbl sel rw qry)] \<and>
   butlast (tl (compile other ctx (Select tbl sel rw qry))) = compile other ctx tbl \<and>
   length (compile other ctx (Select tbl sel rw qry)) = length (compile other ctx tbl) + 2"
  by (simp add: butlast_append)

text \<open>
  C9. Evaluating a select gives the exception value NOT_IMPLEMENTED on the select, for
  every state of the evaluator, which it leaves as it was; the value is not a table.
\<close>

theorem Select_evaluate_not_implemented:
  "evaluate other (Select tbl sel rw qry) evaluator prior =
     (ExceptionValue (Select tbl sel rw qry) NOT_IMPLEMENTED, evaluator) \<and>
   isException (fst (evaluate other (Select tbl sel rw qry) evaluator prior)) \<and>
   \<not> isTable (fst (evaluate other (Select tbl sel rw qry) evaluator prior))"
  by simp

lemma popValues_pushed:
  "length pushed = n \<Longrightarrow>
   popValues n requestor (evaluator\<lparr>stack := rev pushed @ rest\<rparr>) acc =
     (pushed @ acc, evaluator\<lparr>stack := rest\<rparr>)"
proof (induction pushed arbitrary: n acc rule: rev_induct)
  case Nil
  then show ?case by simp
next
  case (snoc x xs)
  then obtain m where n: "n = Suc m" and m: "length xs = m" by (cases n) auto
  from snoc.IH [OF m, of "x # acc"] show ?case
    by (simp add: n popValue_def)
qed

text \<open>
  C6, as the code has it. The plan of a set literal is its start step, the plans of its
  values from left to right, and its finish step. When no prior value is given and the
  values were pushed in the order \<open>pushed\<close>, one for each element, evaluating pops exactly
  these and gives the set of them in that order. When a prior value is given, it is the
  result and nothing is popped.
\<close>

theorem SetLiteral_compile_evaluate:
  "compile other ctx (SetLiteral opn vals cls) =
     Start (SetLiteral opn vals cls) # concat (map (compile other ctx) vals) @
       [Finish (SetLiteral opn vals cls)] \<and>
   (length pushed = length vals \<longrightarrow>
      evaluate otherE (SetLiteral opn vals cls) (evaluator\<lparr>stack := rev pushed @ rest\<rparr>) None =
        (SetValue (SetLiteral opn vals cls) pushed, evaluator\<lparr>stack := rest\<rparr>)) \<and>
   evaluate otherE (SetLiteral opn vals cls) evaluator (Some p) = (p, evaluator)"
proof (intro conjI impI)
  show "compile other ctx (SetLiteral opn vals cls) =
     Start (SetLiteral opn vals cls) # concat (map (compile other ctx) vals) @
       [Finish (SetLiteral opn vals cls)]"
    by (simp add: foldl_append_steps)
next
  assume "length pushed = length vals"
  then show "evaluate otherE (SetLiteral opn vals cls) (evaluator\<lparr>stack := rev pushed @ rest\<rparr>) None =
        (SetValue (SetLiteral opn vals cls) pushed, evaluator\<lparr>stack := rest\<rparr>)"
    by (simp add: popValues_pushed)
next
  show "evaluate otherE (SetLiteral opn vals cls) evaluator (Some p) = (p, evaluator)"
    by simp
qed

theorem SetLiteral_compile_evaluate_witness:
  "compile ex_otherSteps ex_context ex_set =
     [Start ex_set, Start (OtherExpression 1), Finish (OtherExpression 1),
      Start (OtherExpression 2), Finish (OtherExpression 2), Finish ex_set] \<and>
   evaluate ex_otherEvaluate ex_set ex_evaluator None =
     (SetValue ex_set [OtherValue 1, OtherValue 2], \<lparr> stack = [OtherValue 7] \<rparr>)"
  using SetLiteral_compile_evaluate [where other = ex_otherSteps and ctx = ex_context
      and opn = "Token ''{'' SET_OPEN" and vals = "[OtherExpression 1, OtherExpression 2]"
      and cls = "Some (Token ''}'' SET_CLOSE)" and pushed = "[OtherValue 1, OtherValue 2]"
      and otherE = ex_otherEvaluate and evaluator = ex_evaluator and rest = "[OtherValue 7]"]
  by (simp add: ex_set_def ex_evaluator_def ex_otherSteps_def)

theorem SetLiteral_evaluate_prior_counterexample:
  "evaluate ex_otherEvaluate ex_set ex_evaluator (Some (OtherValue 9)) =
     (OtherValue 9, ex_evaluator) \<and>
   length (set_values ex_set) = 2 \<and>
   length (stack (snd (evaluate ex_otherEvaluate ex_set ex_evaluator (Some (OtherValue 9))))) =
     length (stack ex_evaluator) \<and>
   fst (evaluate ex_otherEvaluate ex_set ex_evaluator (Some (OtherValue 9))) \<noteq>
     SetValue ex_set [OtherValue 1, OtherValue 2]"
  by (simp add: ex_set_def ex_evaluator_def)

section \<open>Properties of MissingInput\<close>

text \<open>
  C5. The primary conflicting node of a missing input is the function node of the
  evaluation, the field \<^verbatim>\<open>fun\<close> of the call, and the secondary one is the bind of the
  input that is missing.
\<close>

theorem MissingInput_conflicting_nodes:
  "node (primary (getConflictingNodes (MissingInput f ev l b))) = ExpressionNode (fun_node ev) \<and>
   node (secondary (getConflictingNodes (MissingInput f ev l b))) = BindNode b"
  by (simp add: getConflictingNodes_def)

section \<open>Properties of Select.getType\<close>

text \<open>
  The test \<^verbatim>\<open>columnTypes.find(t => t === undefined)\<close> gives \<^verbatim>\<open>undefined\<close> on every
  array: when an entry is undefined it returns that entry. So the early return that the
  comment announces ("If we can't find one, return unknown") is never taken.
\<close>

lemma js_find_undefined: "js_find (\<lambda>t. t = None) xs = None"
  by (induction xs) auto

lemma getType_table:
  "getTypeOf ctx tbl = TableT tableType \<Longrightarrow>
   getType getTypeOf g ctx (Select tbl sel rw qry) =
     TableT (TableType (map (selectedColumn g tableType) (cells rw)))"
  by (simp add: js_find_undefined truthy_def)

text \<open>
  C3 on concrete inputs. The table has the column \<open>a\<close> only. A select of \<open>a\<close> has the
  table type of that column. A select of \<open>a\<close> and \<open>z\<close> does not have an unknown type:
  its type is a table type whose second column is \<^verbatim>\<open>undefined\<close>.
\<close>

theorem Select_getType_missing_column:
  "getType ex_getTypeOf selectColumnNamed ex_context ex_select_a =
     TableT (TableType [Some ex_column_a]) \<and>
   getType ex_getTypeOf selectColumnNamed ex_context ex_select =
     TableT (TableType [Some ex_column_a, None]) \<and>
   getType ex_getTypeOf selectColumnNamed ex_context ex_select \<noteq> UnknownType ex_select"
  by (simp add: ex_getTypeOf_def ex_select_def ex_select_a_def selectColumnNamed_def
        columnNamed_def definedColumns_def truthy_def ex_column_a_def)

section \<open>Properties of analyzeRow\<close>

lemma namedCell_fold:
  "foldl (namedCell A tt ctx) (cs0, ms0) cls = (cs, ms) \<Longrightarrow>
     set ms = set ms0 \<union> {col. list_ex (namesColumn A tt col) cls} \<and>
     set cs0 \<subseteq> set cs \<and>
     (\<forall>cell\<in>set cls. \<forall>col. namesColumn A tt col cell \<and> incompatible A ctx col cell \<longrightarrow>
        IncompatibleCellType tt cell (getValueType col) (cellType A ctx cell) \<in> set cs)"
proof (induction cls arbitrary: cs0 ms0)
  case Nil
  then show ?case by simp
next
  case (Cons cell cls)
  obtain cs1 ms1 where step: "namedCell A tt ctx (cs0, ms0) cell = (cs1, ms1)"
    by (cases "namedCell A tt ctx (cs0, ms0) cell") auto
  with Cons.prems have rest: "foldl (namedCell A tt ctx) (cs1, ms1) cls = (cs, ms)"
    by simp
  note IH = Cons.IH [OF rest]
  have ms1: "set ms1 = set ms0 \<union> {col. namesColumn A tt col cell}"
    using step by (cases "(A, tt, ctx, (cs0, ms0), cell)" rule: namedCell.cases)
      (auto simp: Let_def split: option.splits)
  have cs1: "set cs0 \<subseteq> set cs1"
    using step by (cases "(A, tt, ctx, (cs0, ms0), cell)" rule: namedCell.cases)
      (auto simp: Let_def split: option.splits if_splits)
  have inc: "\<forall>col. namesColumn A tt col cell \<and> incompatible A ctx col cell \<longrightarrow>
        IncompatibleCellType tt cell (getValueType col) (cellType A ctx cell) \<in> set cs1"
    using step by (cases "(A, tt, ctx, (cs0, ms0), cell)" rule: namedCell.cases)
      (auto simp: Let_def incompatible_def split: option.splits if_splits)
  from IH ms1 cs1 inc show ?case by auto
qed

lemma unmatchedColumn_fold:
  "set (foldl (unmatchedColumn rw tt ms) cs cols) =
     set cs \<union> {MissingCell rw tt col | col. col \<in> set cols \<and> col \<notin> set ms \<and> \<not> hasDefault col}"
  by (induction cols arbitrary: cs) auto

lemma positional_acc:
  "set acc \<subseteq> set (positional A rw tt ctx cols cs acc)"
proof (induction cols arbitrary: cs acc)
  case Nil
  then show ?case by simp
next
  case (Cons column cols)
  have grow: "set acc \<subseteq> set (positional A rw tt ctx cols cs' (acc @ extra))" for cs' extra
    using Cons.IH [of "acc @ extra" cs'] by simp
  show ?case
  proof (cases cs)
    case Nil
    with grow [of "[]"] show ?thesis by simp
  next
    case (Cons cell cs')
    with grow [of cs'] Cons.IH [of acc cs'] show ?thesis by (simp add: Let_def)
  qed
qed

lemma positional_conflicts:
  "i < length cols \<Longrightarrow>
     (length cs \<le> i \<longrightarrow> MissingCell rw tt (cols ! i) \<in> set (positional A rw tt ctx cols cs acc)) \<and>
     (i < length cs \<and> incompatible A ctx (cols ! i) (cs ! i) \<longrightarrow>
        IncompatibleCellType tt (cs ! i) (getValueType (cols ! i)) (cellType A ctx (cs ! i))
          \<in> set (positional A rw tt ctx cols cs acc))"
proof (induction cols arbitrary: i cs acc)
  case Nil
  then show ?case by simp
next
  case (Cons column cols)
  have kept: "x \<in> set (positional A rw tt ctx cols cs' (acc @ [x]))" for x cs'
    using positional_acc [of "acc @ [x]" A rw tt ctx cols cs'] by simp
  show ?case
  proof (cases i)
    case 0
    show ?thesis
    proof (cases cs)
      case Nil
      with kept show ?thesis unfolding 0 by simp
    next
      case (Cons cell cs')
      with kept show ?thesis unfolding 0 by (simp add: Let_def incompatible_def)
    qed
  next
    case (Suc j)
    with Cons.prems have j: "j < length cols" by simp
    show ?thesis
    proof (cases cs)
      case Nil
      with Cons.IH [OF j, of "[]"] show ?thesis unfolding Suc by simp
    next
      case (Cons cell cs')
      with Cons.IH [OF j, of cs'] show ?thesis unfolding Suc by (simp add: Let_def)
    qed
  qed
qed

lemma mixedRow_neither: "mixedRow rw \<Longrightarrow> \<not> allBinds rw \<and> \<not> allExpressions rw"
proof -
  assume m: "mixedRow rw"
  have "\<And>c. isBindCell c \<Longrightarrow> \<not> isExpressionCell c"
    by (erule isBindCell.elims) auto
  with m show ?thesis
    by (auto simp: mixedRow_def allBinds_def allExpressions_def list_all_iff list_ex_iff)
qed

text \<open>
  C4, as the code has it. A row that mixes named and unnamed cells gets the conflict
  InvalidRow and no other. In a row of named cells, every column that no cell names and
  that has no default gets a MissingCell, and every cell whose type its column does not
  accept gets an IncompatibleCellType. In a row of unnamed cells, every column beyond the
  cells gets a MissingCell, and every cell whose type the column at its position does not
  accept gets an IncompatibleCellType.
\<close>

theorem analyzeRow_conflicts:
  "(mixedRow rw \<longrightarrow> analyzeRow A tt rw ctx = [InvalidRow rw]) \<and>
   (allBinds rw \<longrightarrow>
      (\<forall>column\<in>set (columns tt).
         \<not> list_ex (namesColumn A tt column) (cells rw) \<and> \<not> hasDefault column \<longrightarrow>
           MissingCell rw tt column \<in> set (analyzeRow A tt rw ctx)) \<and>
      (\<forall>cell\<in>set (cells rw). \<forall>column.
         namesColumn A tt column cell \<and> incompatible A ctx column cell \<longrightarrow>
           IncompatibleCellType tt cell (getValueType column) (cellType A ctx cell)
             \<in> set (analyzeRow A tt rw ctx))) \<and>
   (\<not> allBinds rw \<and> allExpressions rw \<longrightarrow>
      (\<forall>i<length (columns tt).
         (length (cells rw) \<le> i \<longrightarrow>
            MissingCell rw tt (columns tt ! i) \<in> set (analyzeRow A tt rw ctx)) \<and>
         (i < length (cells rw) \<and> incompatible A ctx (columns tt ! i) (cells rw ! i) \<longrightarrow>
            IncompatibleCellType tt (cells rw ! i) (getValueType (columns tt ! i))
              (cellType A ctx (cells rw ! i)) \<in> set (analyzeRow A tt rw ctx))))"
proof (intro conjI impI)
  assume "mixedRow rw"
  then show "analyzeRow A tt rw ctx = [InvalidRow rw]"
    by (simp add: analyzeRow_def mixedRow_neither)
next
  assume ab: "allBinds rw"
  obtain cs ms where f: "foldl (namedCell A tt ctx) ([], []) (cells rw) = (cs, ms)"
    by (cases "foldl (namedCell A tt ctx) ([], []) (cells rw)") auto
  from ab f have res: "analyzeRow A tt rw ctx = foldl (unmatchedColumn rw tt ms) cs (columns tt)"
    by (simp add: analyzeRow_def)
  note nf = namedCell_fold [OF f]
  show "\<forall>column\<in>set (columns tt).
         \<not> list_ex (namesColumn A tt column) (cells rw) \<and> \<not> hasDefault column \<longrightarrow>
           MissingCell rw tt column \<in> set (analyzeRow A tt rw ctx)"
    using nf by (auto simp: res unmatchedColumn_fold)
  show "\<forall>cell\<in>set (cells rw). \<forall>column.
         namesColumn A tt column cell \<and> incompatible A ctx column cell \<longrightarrow>
           IncompatibleCellType tt cell (getValueType column) (cellType A ctx cell)
             \<in> set (analyzeRow A tt rw ctx)"
    using nf by (auto simp: res unmatchedColumn_fold)
next
  assume "\<not> allBinds rw \<and> allExpressions rw"
  then have res: "analyzeRow A tt rw ctx = positional A rw tt ctx (columns tt) (cells rw) []"
    by (simp add: analyzeRow_def)
  show "\<forall>i<length (columns tt).
         (length (cells rw) \<le> i \<longrightarrow>
            MissingCell rw tt (columns tt ! i) \<in> set (analyzeRow A tt rw ctx)) \<and>
         (i < length (cells rw) \<and> incompatible A ctx (columns tt ! i) (cells rw ! i) \<longrightarrow>
            IncompatibleCellType tt (cells rw ! i) (getValueType (columns tt ! i))
              (cellType A ctx (cells rw ! i)) \<in> set (analyzeRow A tt rw ctx))"
    unfolding res using positional_conflicts by blast
qed

lemmas ex_row_defs =
  ex_analysis_def ex_table_def ex_mixed_row_def ex_named_row_def ex_positional_row_def
  ex_named_cell_def ex_unnamed_cell_def ex_column_a_def ex_column_b_def ex_column_c_def
  ex_accepts_def ex_cellType_def rowColumnNamed_def columnNamed_def firstName_def getNames_def
  incompatible_def mixedRow_def allBinds_def allExpressions_def

theorem analyzeRow_conflicts_witness:
  "analyzeRow ex_analysis ex_table ex_mixed_row ex_context = [InvalidRow ex_mixed_row] \<and>
   MissingCell ex_named_row ex_table ex_column_b
     \<in> set (analyzeRow ex_analysis ex_table ex_named_row ex_context) \<and>
   IncompatibleCellType ex_table ex_named_cell BooleanType (OtherType 1)
     \<in> set (analyzeRow ex_analysis ex_table ex_named_row ex_context) \<and>
   MissingCell ex_positional_row ex_table ex_column_b
     \<in> set (analyzeRow ex_analysis ex_table ex_positional_row ex_context) \<and>
   IncompatibleCellType ex_table ex_unnamed_cell BooleanType (OtherType 1)
     \<in> set (analyzeRow ex_analysis ex_table ex_positional_row ex_context)"
proof -
  note mixed = analyzeRow_conflicts
    [where rw = ex_mixed_row and A = ex_analysis and tt = ex_table and ctx = ex_context]
  note named = analyzeRow_conflicts
    [where rw = ex_named_row and A = ex_analysis and tt = ex_table and ctx = ex_context]
  note unnamed = analyzeRow_conflicts
    [where rw = ex_positional_row and A = ex_analysis and tt = ex_table and ctx = ex_context]
  have "mixedRow ex_mixed_row"
    by (simp add: ex_row_defs)
  with mixed have 1: "analyzeRow ex_analysis ex_table ex_mixed_row ex_context = [InvalidRow ex_mixed_row]"
    by blast
  have n: "allBinds ex_named_row"
    by (simp add: ex_row_defs)
  have "ex_column_b \<in> set (columns ex_table) \<and>
      \<not> list_ex (namesColumn ex_analysis ex_table ex_column_b) (cells ex_named_row) \<and>
      \<not> hasDefault ex_column_b"
    by (simp add: ex_row_defs)
  with named n have 2: "MissingCell ex_named_row ex_table ex_column_b
     \<in> set (analyzeRow ex_analysis ex_table ex_named_row ex_context)"
    by blast
  have "ex_named_cell \<in> set (cells ex_named_row) \<and>
      namesColumn ex_analysis ex_table ex_column_a ex_named_cell \<and>
      incompatible ex_analysis ex_context ex_column_a ex_named_cell"
    by (simp add: ex_row_defs)
  with named n have "IncompatibleCellType ex_table ex_named_cell (getValueType ex_column_a)
      (cellType ex_analysis ex_context ex_named_cell)
     \<in> set (analyzeRow ex_analysis ex_table ex_named_row ex_context)"
    by blast
  then have 3: "IncompatibleCellType ex_table ex_named_cell BooleanType (OtherType 1)
     \<in> set (analyzeRow ex_analysis ex_table ex_named_row ex_context)"
    by (simp add: ex_analysis_def ex_column_a_def ex_cellType_def)
  have u: "\<not> allBinds ex_positional_row \<and> allExpressions ex_positional_row"
    by (simp add: ex_row_defs)
  have "Suc 0 < length (columns ex_table) \<and> length (cells ex_positional_row) \<le> Suc 0 \<and>
      columns ex_table ! Suc 0 = ex_column_b"
    by (simp add: ex_row_defs)
  with unnamed u have 4: "MissingCell ex_positional_row ex_table ex_column_b
     \<in> set (analyzeRow ex_analysis ex_table ex_positional_row ex_context)"
    by metis
  have "0 < length (columns ex_table) \<and> 0 < length (cells ex_positional_row) \<and>
      columns ex_table ! 0 = ex_column_a \<and> cells ex_positional_row ! 0 = ex_unnamed_cell \<and>
      incompatible ex_analysis ex_context ex_column_a ex_unnamed_cell"
    by (simp add: ex_row_defs)
  with unnamed u have "IncompatibleCellType ex_table ex_unnamed_cell (getValueType ex_column_a)
      (cellType ex_analysis ex_context ex_unnamed_cell)
     \<in> set (analyzeRow ex_analysis ex_table ex_positional_row ex_context)"
    by metis
  then have 5: "IncompatibleCellType ex_table ex_unnamed_cell BooleanType (OtherType 1)
     \<in> set (analyzeRow ex_analysis ex_table ex_positional_row ex_context)"
    by (simp add: ex_analysis_def ex_column_a_def ex_cellType_def)
  from 1 2 3 4 5 show ?thesis by simp
qed

theorem analyzeRow_mixed_counterexample:
  "mixedRow ex_mixed_row \<and>
   ex_column_c \<in> set (columns ex_table) \<and> \<not> hasDefault ex_column_c \<and>
   \<not> list_ex (namesColumn ex_analysis ex_table ex_column_c) (cells ex_mixed_row) \<and>
   length (cells ex_mixed_row) \<le> 2 \<and> columns ex_table ! 2 = ex_column_c \<and>
   MissingCell ex_mixed_row ex_table ex_column_c
     \<notin> set (analyzeRow ex_analysis ex_table ex_mixed_row ex_context) \<and>
   ex_named_cell \<in> set (cells ex_mixed_row) \<and>
   namesColumn ex_analysis ex_table ex_column_a ex_named_cell \<and>
   incompatible ex_analysis ex_context ex_column_a ex_named_cell \<and>
   IncompatibleCellType ex_table ex_named_cell (getValueType ex_column_a)
       (cellType ex_analysis ex_context ex_named_cell)
     \<notin> set (analyzeRow ex_analysis ex_table ex_mixed_row ex_context)"
  by (simp add: ex_row_defs analyzeRow_def)

section \<open>Properties of getCaseCollision\<close>

lemma find_alias:
  "list_ex P xs \<Longrightarrow> \<exists>a. find P xs = Some a \<and> a \<in> set xs \<and> P a"
  by (induction xs) auto

lemma find_alias_found:
  "find P xs = Some a \<Longrightarrow> a \<in> set xs \<and> P a"
  by (induction xs) (auto split: if_splits)

lemma otherCase_form:
  "up nm \<noteq> low nm \<Longrightarrow> otherCase up low nm = Some (if nm = up nm then low nm else up nm)"
  by (simp add: otherCase_def Let_def)

lemma otherCase_same:
  "up nm = low nm \<Longrightarrow> otherCase up low nm = None"
  by (simp add: otherCase_def Let_def)

text \<open>
  C7, as the code has it, for every pair of case mappings \<open>up\<close> and \<open>low\<close>. Take a name
  whose upper-case and lower-case forms differ. Its other case is its lower-case form when
  the name is its own upper-case form, and its upper-case form otherwise; it is not the
  name itself. When the enclosing scope resolves the other case of the name to a bind that
  has an alias with exactly that text, the result is the warning CaseSensitive on the node
  and on such an alias. There is a warning in no other situation: not without an
  enclosure, not when the two forms of the name are equal, and not when the scope does not
  resolve the other case of the name to such a bind, whatever other spellings of the name
  the scope binds.
\<close>

theorem getCaseCollision_other_case:
  "(up nm \<noteq> low nm \<longrightarrow> (if nm = up nm then low nm else up nm) \<noteq> nm) \<and>
   (up nm \<noteq> low nm \<and>
    lookup encl (if nm = up nm then low nm else up nm) ctx nd = Some (BindDefinition b) \<and>
    list_ex (\<lambda>a. getName a = Some (if nm = up nm then low nm else up nm)) (aliases b) \<longrightarrow>
      (\<exists>al. getCaseCollision up low lookup nm (Some encl) ctx nd = Some (CaseSensitive nd al) \<and>
         al \<in> set (aliases b) \<and>
         getName al = Some (if nm = up nm then low nm else up nm))) \<and>
   (getCaseCollision up low lookup nm enclosure ctx nd = Some c \<longrightarrow>
      (\<exists>scope b al. enclosure = Some scope \<and> up nm \<noteq> low nm \<and>
         lookup scope (if nm = up nm then low nm else up nm) ctx nd = Some (BindDefinition b) \<and>
         al \<in> set (aliases b) \<and>
         getName al = Some (if nm = up nm then low nm else up nm) \<and>
         c = CaseSensitive nd al))"
proof (intro conjI impI)
  assume "up nm \<noteq> low nm"
  then show "(if nm = up nm then low nm else up nm) \<noteq> nm"
    by auto
next
  let ?other = "if nm = up nm then low nm else up nm"
  assume a: "up nm \<noteq> low nm \<and>
    lookup encl ?other ctx nd = Some (BindDefinition b) \<and>
    list_ex (\<lambda>a. getName a = Some ?other) (aliases b)"
  then have "up nm \<noteq> low nm" by blast
  then have o: "otherCase up low nm = Some ?other"
    by (rule otherCase_form)
  from a obtain al where f: "find (\<lambda>a. getName a = Some ?other) (aliases b) = Some al"
    and m: "al \<in> set (aliases b)" and n: "getName al = Some ?other"
    using find_alias [of "\<lambda>a. getName a = Some ?other" "aliases b"] by blast
  from a o f have "getCaseCollision up low lookup nm (Some encl) ctx nd = Some (CaseSensitive nd al)"
    by (simp add: getCaseCollision_def)
  with m n show "\<exists>al. getCaseCollision up low lookup nm (Some encl) ctx nd =
        Some (CaseSensitive nd al) \<and> al \<in> set (aliases b) \<and> getName al = Some ?other"
    by blast
next
  let ?other = "if nm = up nm then low nm else up nm"
  assume r: "getCaseCollision up low lookup nm enclosure ctx nd = Some c"
  then obtain scope where e: "enclosure = Some scope"
    by (cases enclosure) (auto simp: getCaseCollision_def)
  have d: "up nm \<noteq> low nm"
  proof
    assume "up nm = low nm"
    then have "otherCase up low nm = None" by (rule otherCase_same)
    with r e show False by (simp add: getCaseCollision_def)
  qed
  then have o: "otherCase up low nm = Some ?other"
    by (rule otherCase_form)
  from r e o obtain b where l: "lookup scope ?other ctx nd = Some (BindDefinition b)"
    and f': "(case find (\<lambda>a. getName a = Some ?other) (aliases b) of
               Some al \<Rightarrow> Some (CaseSensitive nd al) | None \<Rightarrow> None) = Some c"
    by (auto simp: getCaseCollision_def split: option.splits Definition.splits)
  then obtain al where f: "find (\<lambda>a. getName a = Some ?other) (aliases b) = Some al"
    and c: "c = CaseSensitive nd al"
    by (auto split: option.splits)
  from find_alias_found [OF f] have "al \<in> set (aliases b)" and "getName al = Some ?other"
    by auto
  with e d l c show "\<exists>scope b al. enclosure = Some scope \<and> up nm \<noteq> low nm \<and>
         lookup scope ?other ctx nd = Some (BindDefinition b) \<and>
         al \<in> set (aliases b) \<and> getName al = Some ?other \<and> c = CaseSensitive nd al"
    by blast
qed

theorem getCaseCollision_other_case_witness:
  "getCaseCollision asciiUpperCase asciiLowerCase getDefinitionOfName ''hello''
     (Some ex_scope_upper) ex_context (IsName (Token ''hello'' NAME)) =
   Some (CaseSensitive (IsName (Token ''hello'' NAME)) ex_alias_upper) \<and>
   ''HELLO'' \<noteq> ''hello'' \<and>
   getName ex_alias_upper = Some ''HELLO'' \<and>
   getCaseCollision asciiUpperCase asciiLowerCase getDefinitionOfName ''Hello''
     (Some ex_scope_lower) ex_context (IsName (Token ''Hello'' NAME)) = None"
proof -
  note upper = getCaseCollision_other_case
    [where up = asciiUpperCase and low = asciiLowerCase and nm = "''hello''"
       and lookup = getDefinitionOfName and encl = ex_scope_upper and ctx = ex_context
       and nd = "IsName (Token ''hello'' NAME)" and b = "Bind [ex_alias_upper] None"]
  have d: "asciiUpperCase ''hello'' \<noteq> asciiLowerCase ''hello''"
    by code_simp
  have form: "(if ''hello'' = asciiUpperCase ''hello'' then asciiLowerCase ''hello''
               else asciiUpperCase ''hello'') = ''HELLO''"
    by code_simp
  have resolved:
    "getDefinitionOfName ex_scope_upper ''HELLO'' ex_context (IsName (Token ''hello'' NAME)) =
      Some (BindDefinition (Bind [ex_alias_upper] None))"
    by code_simp
  have named: "list_ex (\<lambda>a. getName a = Some ''HELLO'') (aliases (Bind [ex_alias_upper] None))"
    by code_simp
  from upper have
    "asciiUpperCase ''hello'' \<noteq> asciiLowerCase ''hello'' \<and>
     getDefinitionOfName ex_scope_upper ''HELLO'' ex_context (IsName (Token ''hello'' NAME)) =
       Some (BindDefinition (Bind [ex_alias_upper] None)) \<and>
     list_ex (\<lambda>a. getName a = Some ''HELLO'') (aliases (Bind [ex_alias_upper] None)) \<longrightarrow>
     (\<exists>al. getCaseCollision asciiUpperCase asciiLowerCase getDefinitionOfName ''hello''
         (Some ex_scope_upper) ex_context (IsName (Token ''hello'' NAME)) =
         Some (CaseSensitive (IsName (Token ''hello'' NAME)) al) \<and>
       al \<in> set (aliases (Bind [ex_alias_upper] None)) \<and> getName al = Some ''HELLO'')"
    unfolding form by (rule conjunct2 [THEN conjunct1])
  with d resolved named obtain al where
    "getCaseCollision asciiUpperCase asciiLowerCase getDefinitionOfName ''hello''
       (Some ex_scope_upper) ex_context (IsName (Token ''hello'' NAME)) =
     Some (CaseSensitive (IsName (Token ''hello'' NAME)) al)"
    and "al \<in> set (aliases (Bind [ex_alias_upper] None))"
    by blast
  then have 1: "getCaseCollision asciiUpperCase asciiLowerCase getDefinitionOfName ''hello''
     (Some ex_scope_upper) ex_context (IsName (Token ''hello'' NAME)) =
   Some (CaseSensitive (IsName (Token ''hello'' NAME)) ex_alias_upper)"
    by simp
  from upper have "asciiUpperCase ''hello'' \<noteq> asciiLowerCase ''hello'' \<longrightarrow> ''HELLO'' \<noteq> ''hello''"
    unfolding form by (rule conjunct1)
  with d have 2: "''HELLO'' \<noteq> ''hello''" by blast
  have 3: "getCaseCollision asciiUpperCase asciiLowerCase getDefinitionOfName ''Hello''
     (Some ex_scope_lower) ex_context (IsName (Token ''Hello'' NAME)) = None"
    by code_simp
  from upper [where enclosure = "Some ex_scope_upper"
      and c = "CaseSensitive (IsName (Token ''hello'' NAME)) ex_alias_upper"]
  have "getCaseCollision asciiUpperCase asciiLowerCase getDefinitionOfName ''hello''
       (Some ex_scope_upper) ex_context (IsName (Token ''hello'' NAME)) =
     Some (CaseSensitive (IsName (Token ''hello'' NAME)) ex_alias_upper) \<longrightarrow>
     (\<exists>scope b al. Some ex_scope_upper = Some scope \<and>
        asciiUpperCase ''hello'' \<noteq> asciiLowerCase ''hello'' \<and>
        getDefinitionOfName scope ''HELLO'' ex_context (IsName (Token ''hello'' NAME)) =
          Some (BindDefinition b) \<and>
        al \<in> set (aliases b) \<and> getName al = Some ''HELLO'' \<and>
        CaseSensitive (IsName (Token ''hello'' NAME)) ex_alias_upper =
          CaseSensitive (IsName (Token ''hello'' NAME)) al)"
    unfolding form by (rule conjunct2 [THEN conjunct2])
  with 1 have 4: "getName ex_alias_upper = Some ''HELLO''"
    by auto
  from 1 2 3 4 show ?thesis by simp
qed

theorem getCaseCollision_mixed_case_counterexample:
  "asciiUpperCase ''Hello'' \<noteq> asciiLowerCase ''Hello'' \<and>
   definesCaseVariant asciiLowerCase ex_scope_lower ''Hello'' \<and>
   getCaseCollision asciiUpperCase asciiLowerCase getDefinitionOfName ''Hello''
     (Some ex_scope_lower) ex_context (IsName (Token ''Hello'' NAME)) = None"
  by code_simp

section \<open>Properties of ConversionDefinition.computeConflicts\<close>

text \<open>
  C8, as the code has it. When the binding scope of the conversion definition is known,
  the result is the conflict MisplacedConversion on the definition exactly when the scope
  is not a block, and no conflict when it is a block, of a structure definition or not.
  When the context does not know the definition, or it has no binding scope, there is no
  conflict.
\<close>

theorem computeConflicts_block:
  "(context_get ctx this = Some (Root (Some encl)) \<longrightarrow>
      computeConflicts this ctx =
        (if node_class encl = BlockClass then [] else [MisplacedConversion this])) \<and>
   (context_get ctx this = None \<or> context_get ctx this = Some (Root None) \<longrightarrow>
      computeConflicts this ctx = [])"
  by (auto simp: computeConflicts_def instanceofBlock_def)

theorem computeConflicts_block_witness:
  "computeConflicts 0 ex_block_context = [] \<and>
   computeConflicts 0 ex_function_context = [MisplacedConversion 0] \<and>
   computeConflicts 0 ex_context = []"
  using computeConflicts_block [where ctx = ex_block_context and this = 0 and encl = ex_program_block]
    computeConflicts_block [where ctx = ex_function_context and this = 0 and encl = ex_function_scope]
    computeConflicts_block [where ctx = ex_context and this = 0]
  by (simp add: ex_block_context_def ex_function_context_def ex_context_def
        ex_program_block_def ex_function_scope_def)

theorem computeConflicts_program_block_counterexample:
  "context_get ex_block_context 0 = Some (Root (Some ex_program_block)) \<and>
   \<not> ofStructureDefinition ex_program_block \<and>
   computeConflicts 0 ex_block_context = []"
  by (simp add: computeConflicts_def instanceofBlock_def ex_block_context_def ex_program_block_def)

section \<open>Properties of replacing a child\<close>

lemma replaceChild_substituted:
  "replaceChild pretty field child (Some (original, replacement)) =
     substituted original replacement child"
  by (simp add: substituted_def)

lemma newConversionDefinition_docs:
  "instanceofDocs h dc \<Longrightarrow>
   newConversionDefinition dc ip ou ex (Some ar) h =
     (length h, h @ [ConversionDefinitionObject dc ar ip ou ex])"
  by (simp add: newConversionDefinition_def alloc_def)

text \<open>
  C1. Replacing in a conversion definition or in a set literal allocates one object, the
  new node, of the same class, at an address that was not in use; the heap below it is
  unchanged. Each slot of the new node holds the replacement where the old slot held the
  original, and holds the very address that the old slot held otherwise. For the
  conversion definition the node in the docs slot after the substitution is to be a Docs,
  as the slot is typed.
\<close>

theorem replace_substitutes_slot:
  "(this < length h \<and> h ! this = ConversionDefinitionObject dc ar ip ou ex \<and>
    instanceofDocs h (substituted original replacement dc) \<longrightarrow>
      ConversionDefinition_replace h this pretty (Some (original, replacement)) =
        Some (length h,
              h @ [ConversionDefinitionObject
                     (substituted original replacement dc)
                     (substituted original replacement ar)
                     (substituted original replacement ip)
                     (substituted original replacement ou)
                     (substituted original replacement ex)])) \<and>
   (this < length h \<and> h ! this = SetLiteralObject opn vals cls \<longrightarrow>
      SetLiteral_clone h this (Some (original, replacement)) =
        Some (length h,
              h @ [SetLiteralObject
                     (substituted original replacement opn)
                     (map (substituted original replacement) vals)
                     (map_option (substituted original replacement) cls)])) \<and>
   (child \<noteq> original \<longrightarrow> substituted original replacement child = child) \<and>
   substituted original replacement original = replacement"
proof (intro conjI impI)
  assume a: "this < length h \<and> h ! this = ConversionDefinitionObject dc ar ip ou ex \<and>
    instanceofDocs h (substituted original replacement dc)"
  then show "ConversionDefinition_replace h this pretty (Some (original, replacement)) =
        Some (length h,
              h @ [ConversionDefinitionObject
                     (substituted original replacement dc)
                     (substituted original replacement ar)
                     (substituted original replacement ip)
                     (substituted original replacement ou)
                     (substituted original replacement ex)])"
    unfolding ConversionDefinition_replace_def
    by (simp only: replaceChild_substituted newConversionDefinition_docs Object.case if_True)
next
  assume "this < length h \<and> h ! this = SetLiteralObject opn vals cls"
  then show "SetLiteral_clone h this (Some (original, replacement)) =
        Some (length h,
              h @ [SetLiteralObject
                     (substituted original replacement opn)
                     (map (substituted original replacement) vals)
                     (map_option (substituted original replacement) cls)])"
    by (simp add: SetLiteral_clone_def newSetLiteral_def alloc_def replaceChildren_def
          replaceOptionalChild_def substituted_def [abs_def])
next
  assume "child \<noteq> original"
  then show "substituted original replacement child = child"
    by (simp add: substituted_def)
next
  show "substituted original replacement original = replacement"
    by (simp add: substituted_def)
qed

theorem replace_substitutes_slot_witness:
  "ConversionDefinition_replace ex_conversion_heap 5 False (Some (2, 6)) =
     Some (7, ex_conversion_heap @ [ConversionDefinitionObject 0 1 6 3 4]) \<and>
   SetLiteral_clone ex_set_heap 4 (Some (2, 5)) =
     Some (6, ex_set_heap @ [SetLiteralObject 0 [1, 5] (Some 3)])"
proof -
  have "5 < length ex_conversion_heap \<and>
      ex_conversion_heap ! 5 = ConversionDefinitionObject 0 1 2 3 4 \<and>
      instanceofDocs ex_conversion_heap (substituted 2 6 0)"
    by (simp add: ex_conversion_heap_def instanceofDocs_def substituted_def)
  with replace_substitutes_slot [where h = ex_conversion_heap and this = 5 and dc = 0 and ar = 1
      and ip = 2 and ou = 3 and ex = 4 and original = 2 and replacement = 6 and pretty = False]
  have "ConversionDefinition_replace ex_conversion_heap 5 False (Some (2, 6)) =
      Some (length ex_conversion_heap,
            ex_conversion_heap @ [ConversionDefinitionObject (substituted 2 6 0) (substituted 2 6 1)
               (substituted 2 6 2) (substituted 2 6 3) (substituted 2 6 4)])"
    by blast
  then have 1: "ConversionDefinition_replace ex_conversion_heap 5 False (Some (2, 6)) =
     Some (7, ex_conversion_heap @ [ConversionDefinitionObject 0 1 6 3 4])"
    by (simp add: substituted_def ex_conversion_heap_def)
  have "4 < length ex_set_heap \<and> ex_set_heap ! 4 = SetLiteralObject 0 [1, 2] (Some 3)"
    by (simp add: ex_set_heap_def)
  with replace_substitutes_slot [where h = ex_set_heap and this = 4 and opn = 0
      and vals = "[1, 2]" and cls = "Some 3" and original = 2 and replacement = 5]
  have "SetLiteral_clone ex_set_heap 4 (Some (2, 5)) =
      Some (length ex_set_heap,
            ex_set_heap @ [SetLiteralObject (substituted 2 5 0) (map (substituted 2 5) [1, 2])
               (map_option (substituted 2 5) (Some 3))])"
    by blast
  then have 2: "SetLiteral_clone ex_set_heap 4 (Some (2, 5)) =
     Some (6, ex_set_heap @ [SetLiteralObject 0 [1, 5] (Some 3)])"
    by (simp add: substituted_def ex_set_heap_def)
  from 1 2 show ?thesis by simp
qed

end
